theory Spec2Isabelle
  imports Main "HOL-Library.Word"
begin

section \<open>The platform's thread identifiers\<close>

text \<open>
  \<^verbatim>\<open>using native_handle_type = pthread_t;\<close> On Linux \<^verbatim>\<open>pthread_t\<close> is
  \<^verbatim>\<open>unsigned long\<close>, and \<^verbatim>\<open>size_t\<close> has the same width: both are 64-bit words,
  compared without sign.
\<close>

type_synonym native_handle_type = "64 word"
type_synonym size_t = "64 word"

text \<open>
  \<^verbatim>\<open>pthread_equal\<close> is the platform's: it returns a nonzero value when the two
  identifiers are the same thread and 0 otherwise. On Linux it is the comparison of the
  two integers.
\<close>

definition pthread_equal :: "native_handle_type \<Rightarrow> native_handle_type \<Rightarrow> int" where
  "pthread_equal t1 t2 = (if t1 = t2 then 1 else 0)"

section \<open>LinuxThread::id\<close>

text \<open>
  \<^verbatim>\<open>class id { native_handle_type m_threadID{0ull}; ... };\<close>
  The class has one field; a default-constructed \<^verbatim>\<open>id\<close> holds 0.
\<close>

record LinuxThread_id =
  m_threadID :: native_handle_type

definition id_default :: LinuxThread_id where
  "id_default = \<lparr>m_threadID = 0\<rparr>"

text \<open>The six comparison operators, each as the source defines it.\<close>

definition id_eq :: "LinuxThread_id \<Rightarrow> LinuxThread_id \<Rightarrow> bool" where
  "id_eq lhs rhs = (0 \<noteq> pthread_equal (m_threadID lhs) (m_threadID rhs))"

definition id_ne :: "LinuxThread_id \<Rightarrow> LinuxThread_id \<Rightarrow> bool" where
  "id_ne lhs rhs = (\<not> id_eq lhs rhs)"

definition id_lt :: "LinuxThread_id \<Rightarrow> LinuxThread_id \<Rightarrow> bool" where
  "id_lt lhs rhs = (m_threadID lhs < m_threadID rhs)"

definition id_gt :: "LinuxThread_id \<Rightarrow> LinuxThread_id \<Rightarrow> bool" where
  "id_gt lhs rhs = id_lt rhs lhs"

definition id_le :: "LinuxThread_id \<Rightarrow> LinuxThread_id \<Rightarrow> bool" where
  "id_le lhs rhs = (\<not> id_gt lhs rhs)"

definition id_ge :: "LinuxThread_id \<Rightarrow> LinuxThread_id \<Rightarrow> bool" where
  "id_ge lhs rhs = (\<not> id_lt lhs rhs)"

text \<open>
  \<^verbatim>\<open>size_t std::hash<rau::LinuxThread::id>::operator()(rau::LinuxThread::id&& id)
  { return id.m_threadID; }\<close>
  The conversion from \<^verbatim>\<open>unsigned long\<close> to \<^verbatim>\<open>size_t\<close> keeps the 64 bits.
\<close>

definition hash_id :: "LinuxThread_id \<Rightarrow> size_t" where
  "hash_id i = m_threadID i"

section \<open>LinuxThread: the handle\<close>

text \<open>
  \<^verbatim>\<open>class LinuxThread { id m_ID; ... };\<close>
  \<^verbatim>\<open>LinuxThread() noexcept = default;\<close> leaves \<^verbatim>\<open>m_ID\<close> default-constructed.
\<close>

record LinuxThread =
  m_ID :: LinuxThread_id

definition LinuxThread_default :: LinuxThread where
  "LinuxThread_default = \<lparr>m_ID = id_default\<rparr>"

text \<open>
  \<^verbatim>\<open>native_handle()\<close> reads the bytes of \<^verbatim>\<open>m_ID\<close> as a \<^verbatim>\<open>pthread_t\<close>:
  \<^verbatim>\<open>return *reinterpret_cast<native_handle_type*>(&m_ID);\<close>
  The object has the single field \<^verbatim>\<open>m_threadID\<close>, so the bytes read are that field.
\<close>

definition native_handle :: "LinuxThread \<Rightarrow> native_handle_type" where
  "native_handle this = m_threadID (m_ID this)"

definition get_id :: "LinuxThread \<Rightarrow> LinuxThread_id" where
  "get_id this = m_ID this"

text \<open>
  \<^verbatim>\<open>return !(m_ID == id());\<close> The second \<^verbatim>\<open>return {};\<close> of the source is never
  reached.
\<close>

definition joinable :: "LinuxThread \<Rightarrow> bool" where
  "joinable this = (\<not> id_eq (m_ID this) id_default)"

section \<open>The world outside the handle\<close>

text \<open>
  The platform calls the class makes, in the order it makes them. The argument of
  \<^verbatim>\<open>pthread_create\<close> recorded here is the address of the closure record.
\<close>

datatype syscall =
    Pthread_create nat
  | Pthread_join native_handle_type
  | Pthread_detach native_handle_type

text \<open>
  What the class can observe or change outside its own field: the closure records that
  \<^verbatim>\<open>new\<close> has allocated and \<^verbatim>\<open>delete\<close> has not yet freed, the threads the platform
  has started, the platform calls made so far, \<^verbatim>\<open>errno\<close>, and the memory of the process
  read as 8-byte objects (\<open>None\<close> at an address that is not mapped).
\<close>

record world =
  closures :: "nat set"
  threads :: "native_handle_type list"
  calls :: "syscall list"
  errno :: int
  memory :: "native_handle_type \<Rightarrow> native_handle_type option"

definition world0 :: world where
  "world0 = \<lparr>closures = {}, threads = [], calls = [], errno = 0, memory = Map.empty\<rparr>"

text \<open>
  The answer of \<^verbatim>\<open>pthread_create\<close>: the returned error number (0 on success) and the
  identifier it stored through its first argument. The platform starts a thread exactly
  when it answers 0; it reports the error by the returned number and leaves
  \<^verbatim>\<open>errno\<close> alone.
\<close>

record create_reply =
  rc :: int
  tid :: native_handle_type

definition pthread_create :: "nat \<Rightarrow> create_reply \<Rightarrow> world \<Rightarrow> world" where
  "pthread_create arg r w =
     w\<lparr>calls := calls w @ [Pthread_create arg],
       threads := (if rc r = 0 then threads w @ [tid r] else threads w)\<rparr>"

definition pthread_join :: "native_handle_type \<Rightarrow> world \<Rightarrow> world" where
  "pthread_join t w = w\<lparr>calls := calls w @ [Pthread_join t]\<rparr>"

definition pthread_detach :: "native_handle_type \<Rightarrow> world \<Rightarrow> world" where
  "pthread_detach t w = w\<lparr>calls := calls w @ [Pthread_detach t]\<rparr>"

text \<open>
  How a member function ends: it returns, an exception leaves it, \<^verbatim>\<open>std::terminate()\<close>
  ends the process, or it reads memory that is not mapped.
\<close>

datatype exn = Runtime_error string | Bad_alloc

datatype 'a result = Returned 'a | Threw exn | Terminated | Fault

text \<open>
  A function declared \<^verbatim>\<open>noexcept\<close>: an exception that would leave it calls
  \<^verbatim>\<open>std::terminate()\<close> instead.
\<close>

definition noexcept :: "'a result \<times> world \<Rightarrow> 'a result \<times> world" where
  "noexcept p = (case fst p of Threw e \<Rightarrow> (Terminated, snd p) | _ \<Rightarrow> p)"

section \<open>Construction with a callable\<close>

text \<open>
  \<^verbatim>\<open>
  explicit LinuxThread(Callable&& c, Args&&... args) noexcept
  {
      auto* wrapper = new detail::ThreadRoutineWrapper<...>{...};
      native_handle_type temp_id;
      auto result = pthread_create(&temp_id, nullptr, &detail::posix_thread_routine<...>, wrapper);
      if(result != 0)
      {
          delete wrapper;
          throw std::runtime_error{strerror(errno)};
      }
      m_ID = *reinterpret_cast<id*>(temp_id);
  }
  \<close>
  \<^verbatim>\<open>detail::ThreadRoutineWrapper\<close> and \<^verbatim>\<open>detail::posix_thread_routine\<close> are not among
  the sources: the closure record is an allocation known by its address only, and what
  the started thread does with it is not part of the model.

  The body first, then the constructor as declared. The parameters are the platform's:
  \<open>strerror\<close>, the address \<^verbatim>\<open>new\<close> returns (\<open>None\<close> when it throws
  \<^verbatim>\<open>std::bad_alloc\<close>) and the answer of \<^verbatim>\<open>pthread_create\<close>.

  The last statement casts the value \<^verbatim>\<open>temp_id\<close> to a pointer and reads the
  \<^verbatim>\<open>id\<close> object at that address: it reads \<open>memory w (tid r)\<close>, not \<open>tid r\<close>.
  The message of the exception is \<^verbatim>\<open>strerror(errno)\<close>, not \<^verbatim>\<open>strerror(result)\<close>.
\<close>

definition LinuxThread_ctor_body ::
  "(int \<Rightarrow> string) \<Rightarrow> nat option \<Rightarrow> create_reply \<Rightarrow> world \<Rightarrow> LinuxThread result \<times> world" where
  "LinuxThread_ctor_body strerror new_reply r w =
     (case new_reply of
        None \<Rightarrow> (Threw Bad_alloc, w)
      | Some wrapper \<Rightarrow>
          (let w1 = w\<lparr>closures := insert wrapper (closures w)\<rparr>;
               w2 = pthread_create wrapper r w1
           in if rc r \<noteq> 0
              then (Threw (Runtime_error (strerror (errno w2))),
                    w2\<lparr>closures := closures w2 - {wrapper}\<rparr>)
              else (case memory w2 (tid r) of
                      None \<Rightarrow> (Fault, w2)
                    | Some v \<Rightarrow> (Returned \<lparr>m_ID = \<lparr>m_threadID = v\<rparr>\<rparr>, w2))))"

definition LinuxThread_ctor ::
  "(int \<Rightarrow> string) \<Rightarrow> nat option \<Rightarrow> create_reply \<Rightarrow> world \<Rightarrow> LinuxThread result \<times> world" where
  "LinuxThread_ctor strerror new_reply r w = noexcept (LinuxThread_ctor_body strerror new_reply r w)"

text \<open>Some of the messages of \<^verbatim>\<open>strerror\<close> on Linux, for the examples.\<close>

definition strerror_linux :: "int \<Rightarrow> string" where
  "strerror_linux n =
     (if n = 0 then ''Success''
      else if n = 1 then ''Operation not permitted''
      else if n = 11 then ''Resource temporarily unavailable''
      else if n = 12 then ''Cannot allocate memory''
      else if n = 22 then ''Invalid argument''
      else ''Unknown error'')"

section \<open>Moving, destroying, joining and detaching\<close>

text \<open>
  \<^verbatim>\<open>LinuxThread( LinuxThread&& other ) noexcept { std::swap(m_ID, other.m_ID); }\<close>
  The new object's \<^verbatim>\<open>m_ID\<close> is default-constructed before the body runs. The result
  is the new object and \<^verbatim>\<open>other\<close> after the call.
\<close>

definition LinuxThread_move_ctor :: "LinuxThread \<Rightarrow> LinuxThread \<times> LinuxThread" where
  "LinuxThread_move_ctor other =
     (let this = LinuxThread_default
      in (this\<lparr>m_ID := m_ID other\<rparr>, other\<lparr>m_ID := m_ID this\<rparr>))"

text \<open>
  \<^verbatim>\<open>~LinuxThread() { if (joinable()) std::terminate(); }\<close>
\<close>

definition LinuxThread_dtor :: "LinuxThread \<Rightarrow> world \<Rightarrow> unit result \<times> world" where
  "LinuxThread_dtor this w = (if joinable this then (Terminated, w) else (Returned (), w))"

text \<open>
  Move assignment works on two objects that exist already and may be the same one, so
  the handles live in a store, addressed by number.
  \<^verbatim>\<open>std::swap(a, b)\<close> is \<^verbatim>\<open>tmp = a; a = b; b = tmp;\<close>
\<close>

type_synonym store = "nat \<Rightarrow> LinuxThread"

definition swap_m_ID :: "nat \<Rightarrow> nat \<Rightarrow> store \<Rightarrow> store" where
  "swap_m_ID a b s =
     (let tmp = m_ID (s a);
          s1 = s(a := (s a)\<lparr>m_ID := m_ID (s b)\<rparr>);
          s2 = s1(b := (s1 b)\<lparr>m_ID := tmp\<rparr>)
      in s2)"

text \<open>
  \<^verbatim>\<open>
  LinuxThread& operator=(LinuxThread&& other)
  {
      if (joinable())
          std::terminate();
          std::swap(m_ID, other.m_ID);
          return *this;
  }
  \<close>
  \<^verbatim>\<open>std::terminate()\<close> does not return, so the swap runs only when the destination is
  not joinable.
\<close>

definition move_assign :: "nat \<Rightarrow> nat \<Rightarrow> store \<Rightarrow> store result" where
  "move_assign this other s =
     (if joinable (s this) then Terminated else Returned (swap_m_ID this other s))"

text \<open>
  \<^verbatim>\<open>void join() { if (joinable()) { pthread_join(native_handle(), nullptr); m_ID = id{}; }; }\<close>
  The value \<^verbatim>\<open>pthread_join\<close> returns is not looked at. Whether the platform call
  ever returns is the platform's matter: the model records that the call was made.
\<close>

definition join :: "LinuxThread \<Rightarrow> world \<Rightarrow> LinuxThread \<times> world" where
  "join this w =
     (if joinable this
      then (this\<lparr>m_ID := id_default\<rparr>, pthread_join (native_handle this) w)
      else (this, w))"

text \<open>
  \<^verbatim>\<open>void detach() { pthread_detach(native_handle()); m_ID = id{}; }\<close>
\<close>

definition detach :: "LinuxThread \<Rightarrow> world \<Rightarrow> LinuxThread \<times> world" where
  "detach this w = (this\<lparr>m_ID := id_default\<rparr>, pthread_detach (native_handle this) w)"

section \<open>Properties of the identity type\<close>

lemma id_eq_iff: "id_eq a b = (m_threadID a = m_threadID b)"
  by (simp add: id_eq_def pthread_equal_def)

lemma id_eq_default_iff: "id_eq (a :: LinuxThread_id) id_default = (a = id_default)"
  by (cases a) (simp add: id_eq_iff id_default_def)

lemma joinable_iff: "joinable (h :: LinuxThread) = (m_ID h \<noteq> id_default)"
  by (simp add: joinable_def id_eq_default_iff)

text \<open>
  C9. The operators \<^verbatim>\<open>>\<close>, \<^verbatim>\<open><=\<close> and \<^verbatim>\<open>>=\<close> are derived from \<^verbatim>\<open><\<close> on the
  underlying value: \<open>a > b\<close> is \<open>b < a\<close>, \<open>a <= b\<close> is the negation of \<open>a > b\<close>, \<open>a >= b\<close> is
  the negation of \<open>a < b\<close>. The resulting \<^verbatim>\<open><=\<close> is a total order: any two identities are
  comparable, it is reflexive and transitive, and two identities each \<^verbatim>\<open><=\<close> the other
  are equal under \<^verbatim>\<open>==\<close>. \<^verbatim>\<open><\<close> is its strict part.
\<close>

theorem id_comparison_total_order:
  "(id_gt a b = id_lt b a)
   \<and> (id_le a b = (\<not> id_gt a b))
   \<and> (id_ge a b = (\<not> id_lt a b))
   \<and> (id_le a b \<or> id_le b a)
   \<and> id_le a a
   \<and> (id_le a b \<and> id_le b c \<longrightarrow> id_le a c)
   \<and> (id_le a b \<and> id_le b a \<longrightarrow> id_eq a b)
   \<and> (id_lt a b = (id_le a b \<and> \<not> id_eq a b))"
  by (auto simp: id_gt_def id_le_def id_ge_def id_lt_def id_eq_iff)

theorem id_comparison_total_order_witness:
  "id_le \<lparr>m_threadID = 1\<rparr> \<lparr>m_threadID = 2\<rparr>
   \<and> id_le \<lparr>m_threadID = 2\<rparr> \<lparr>m_threadID = 5\<rparr>
   \<and> id_le \<lparr>m_threadID = 1\<rparr> \<lparr>m_threadID = 5\<rparr>
   \<and> id_gt \<lparr>m_threadID = 2\<rparr> \<lparr>m_threadID = 1\<rparr>
   \<and> id_lt \<lparr>m_threadID = 1\<rparr> \<lparr>m_threadID = 2\<rparr>
   \<and> \<not> id_ge \<lparr>m_threadID = 1\<rparr> \<lparr>m_threadID = 2\<rparr>"
  using id_comparison_total_order [of "\<lparr>m_threadID = 2\<rparr>" "\<lparr>m_threadID = 1\<rparr>" "\<lparr>m_threadID = 5\<rparr>"]
    id_comparison_total_order [of "\<lparr>m_threadID = 1\<rparr>" "\<lparr>m_threadID = 2\<rparr>" "\<lparr>m_threadID = 5\<rparr>"]
  by (simp add: id_lt_def id_le_def id_gt_def)

text \<open>
  C10. The hash of an identity is its underlying native identifier. Two identities with
  the same underlying value have the same hash, and the default-constructed identity
  hashes to 0.
\<close>

theorem hash_id_is_underlying_value:
  "hash_id a = m_threadID a
   \<and> (m_threadID a = m_threadID b \<longrightarrow> hash_id a = hash_id b)
   \<and> hash_id id_default = 0"
  by (simp add: hash_id_def id_default_def)

theorem hash_id_is_underlying_value_witness:
  "m_threadID \<lparr>m_threadID = 7\<rparr> = m_threadID \<lparr>m_threadID = 7\<rparr>
   \<and> hash_id \<lparr>m_threadID = 7\<rparr> = 7
   \<and> hash_id id_default = 0"
  using hash_id_is_underlying_value [of "\<lparr>m_threadID = 7\<rparr>" "\<lparr>m_threadID = 7\<rparr>"]
  by simp

text \<open>
  C3. For every handle, \<^verbatim>\<open>joinable()\<close> is \<^verbatim>\<open>get_id() != id()\<close>; the default-constructed
  handle is not joinable and its identity equals the default identity.
\<close>

theorem joinable_iff_get_id_not_default:
  "joinable h = id_ne (get_id h) id_default
   \<and> joinable LinuxThread_default = False
   \<and> id_eq (get_id LinuxThread_default) id_default
   \<and> get_id LinuxThread_default = id_default"
  by (simp add: joinable_def id_ne_def get_id_def LinuxThread_default_def id_eq_iff)

theorem joinable_iff_get_id_not_default_witness:
  "joinable \<lparr>m_ID = \<lparr>m_threadID = 42\<rparr>\<rparr>
   \<and> id_ne (get_id \<lparr>m_ID = \<lparr>m_threadID = 42\<rparr>\<rparr>) id_default
   \<and> \<not> joinable LinuxThread_default"
  using joinable_iff_get_id_not_default [of "\<lparr>m_ID = \<lparr>m_threadID = 42\<rparr>\<rparr>"]
  by (simp add: joinable_iff id_default_def)

section \<open>Properties of the handle\<close>

lemma set_default_id: "(h :: LinuxThread)\<lparr>m_ID := id_default\<rparr> = LinuxThread_default"
  by (cases h) (simp add: LinuxThread_default_def)

lemma not_joinable_iff: "(\<not> joinable (h :: LinuxThread)) = (h = LinuxThread_default)"
  by (cases h) (simp add: joinable_iff LinuxThread_default_def)

lemma not_joinable_default: "\<not> joinable LinuxThread_default"
  by (simp add: not_joinable_iff)

text \<open>
  C4. \<^verbatim>\<open>join()\<close> on a handle that is not joinable changes neither the handle nor the
  world: no platform call is made. On a joinable handle it calls \<^verbatim>\<open>pthread_join\<close>
  once, on the identifier the handle holds, and leaves the handle empty.
\<close>

theorem join_effect:
  "(\<not> joinable h \<longrightarrow> join h w = (h, w))
   \<and> (joinable h \<longrightarrow>
        join h w = (LinuxThread_default,
                    w\<lparr>calls := calls w @ [Pthread_join (m_threadID (get_id h))]\<rparr>)
        \<and> get_id (fst (join h w)) = id_default
        \<and> \<not> joinable (fst (join h w)))"
  by (simp add: join_def set_default_id not_joinable_default pthread_join_def
      native_handle_def get_id_def)
     (simp add: LinuxThread_default_def)

theorem join_effect_witness:
  "joinable \<lparr>m_ID = \<lparr>m_threadID = 42\<rparr>\<rparr>
   \<and> join \<lparr>m_ID = \<lparr>m_threadID = 42\<rparr>\<rparr> world0
       = (LinuxThread_default, world0\<lparr>calls := [Pthread_join 42]\<rparr>)
   \<and> \<not> joinable LinuxThread_default
   \<and> join LinuxThread_default world0 = (LinuxThread_default, world0)"
  using join_effect [of "\<lparr>m_ID = \<lparr>m_threadID = 42\<rparr>\<rparr>" world0]
    join_effect [of LinuxThread_default world0]
  by (simp add: joinable_iff id_default_def LinuxThread_default_def get_id_def world0_def)

text \<open>
  C5. Destroying a joinable handle calls \<^verbatim>\<open>std::terminate()\<close>; destroying a handle
  that is not joinable returns and changes nothing.
\<close>

theorem dtor_effect:
  "(joinable h \<longrightarrow> LinuxThread_dtor h w = (Terminated, w))
   \<and> (\<not> joinable h \<longrightarrow> LinuxThread_dtor h w = (Returned (), w))"
  by (simp add: LinuxThread_dtor_def)

theorem dtor_effect_witness:
  "joinable \<lparr>m_ID = \<lparr>m_threadID = 42\<rparr>\<rparr>
   \<and> LinuxThread_dtor \<lparr>m_ID = \<lparr>m_threadID = 42\<rparr>\<rparr> world0 = (Terminated, world0)
   \<and> \<not> joinable LinuxThread_default
   \<and> LinuxThread_dtor LinuxThread_default world0 = (Returned (), world0)"
  using dtor_effect [of "\<lparr>m_ID = \<lparr>m_threadID = 42\<rparr>\<rparr>" world0]
    dtor_effect [of LinuxThread_default world0]
  by (simp add: joinable_iff id_default_def LinuxThread_default_def)

text \<open>
  C6. Move assignment onto a joinable destination calls \<^verbatim>\<open>std::terminate()\<close>.
  Otherwise it returns; afterwards the destination holds the identity the source held
  before, the source is empty, and every other handle is as it was. This holds also when
  source and destination are the same object.
\<close>

theorem move_assign_effect:
  "(joinable (s this) \<longrightarrow> move_assign this other s = Terminated)
   \<and> (\<not> joinable (s this) \<longrightarrow>
        (\<exists>s'. move_assign this other s = Returned s'
           \<and> get_id (s' this) = get_id (s other)
           \<and> \<not> joinable (s' other)
           \<and> get_id (s' other) = id_default
           \<and> (\<forall>p. p \<noteq> this \<and> p \<noteq> other \<longrightarrow> s' p = s p)))"
  by (auto simp: move_assign_def swap_m_ID_def Let_def get_id_def not_joinable_iff
      set_default_id LinuxThread_default_def joinable_iff)

theorem move_assign_effect_witness:
  "joinable (((\<lambda>p. LinuxThread_default)(1 := \<lparr>m_ID = \<lparr>m_threadID = 42\<rparr>\<rparr>)) (1::nat))
   \<and> move_assign 1 0 ((\<lambda>p. LinuxThread_default)(1 := \<lparr>m_ID = \<lparr>m_threadID = 42\<rparr>\<rparr>))
       = Terminated
   \<and> \<not> joinable (((\<lambda>p. LinuxThread_default)(1 := \<lparr>m_ID = \<lparr>m_threadID = 42\<rparr>\<rparr>)) (0::nat))
   \<and> (\<exists>s'. move_assign 0 1 ((\<lambda>p. LinuxThread_default)(1 := \<lparr>m_ID = \<lparr>m_threadID = 42\<rparr>\<rparr>))
             = Returned s'
          \<and> get_id (s' 0) = \<lparr>m_threadID = 42\<rparr>
          \<and> get_id (s' 1) = id_default)"
  using move_assign_effect
      [of "(\<lambda>p. LinuxThread_default)(1 := \<lparr>m_ID = \<lparr>m_threadID = 42\<rparr>\<rparr>)" 1 0]
    move_assign_effect
      [of "(\<lambda>p. LinuxThread_default)(1 := \<lparr>m_ID = \<lparr>m_threadID = 42\<rparr>\<rparr>)" 0 1]
  by (auto simp: joinable_iff id_default_def LinuxThread_default_def get_id_def)

text \<open>
  C7. Move construction from a joinable handle gives a joinable handle with the
  identity the source held, and leaves the source empty.
\<close>

theorem move_ctor_effect:
  "joinable a \<Longrightarrow> LinuxThread_move_ctor a = (b, a') \<Longrightarrow>
     joinable b \<and> get_id b = get_id a \<and> \<not> joinable a' \<and> get_id a' = id_default"
  by (auto simp: LinuxThread_move_ctor_def Let_def get_id_def joinable_iff
      LinuxThread_default_def)

theorem move_ctor_effect_witness:
  "joinable \<lparr>m_ID = \<lparr>m_threadID = 42\<rparr>\<rparr>
   \<and> LinuxThread_move_ctor \<lparr>m_ID = \<lparr>m_threadID = 42\<rparr>\<rparr>
       = (\<lparr>m_ID = \<lparr>m_threadID = 42\<rparr>\<rparr>, LinuxThread_default)
   \<and> get_id \<lparr>m_ID = \<lparr>m_threadID = 42\<rparr>\<rparr> = \<lparr>m_threadID = 42\<rparr>
   \<and> \<not> joinable LinuxThread_default
   \<and> get_id LinuxThread_default = id_default"
proof -
  have j: "joinable \<lparr>m_ID = \<lparr>m_threadID = 42\<rparr>\<rparr>"
    by (simp add: joinable_iff id_default_def)
  have m: "LinuxThread_move_ctor \<lparr>m_ID = \<lparr>m_threadID = 42\<rparr>\<rparr>
             = (\<lparr>m_ID = \<lparr>m_threadID = 42\<rparr>\<rparr>, LinuxThread_default)"
    by (simp add: LinuxThread_move_ctor_def LinuxThread_default_def)
  from move_ctor_effect [OF j m] j m show ?thesis
    by (simp add: get_id_def)
qed

text \<open>
  C8. \<^verbatim>\<open>detach()\<close> calls \<^verbatim>\<open>pthread_detach\<close> on the identifier the handle holds,
  whatever the handle's state, makes no other platform call, and leaves the handle
  empty. On a handle that is not joinable the platform call receives the sentinel 0.
\<close>

theorem detach_effect:
  "detach h w = (LinuxThread_default,
                 w\<lparr>calls := calls w @ [Pthread_detach (m_threadID (get_id h))]\<rparr>)
   \<and> \<not> joinable (fst (detach h w))
   \<and> get_id (fst (detach h w)) = id_default
   \<and> (\<not> joinable h \<longrightarrow> calls (snd (detach h w)) = calls w @ [Pthread_detach 0])"
  by (auto simp: detach_def set_default_id not_joinable_default pthread_detach_def
      native_handle_def get_id_def LinuxThread_default_def not_joinable_iff id_default_def)

theorem detach_effect_witness:
  "\<not> joinable LinuxThread_default
   \<and> detach LinuxThread_default world0
       = (LinuxThread_default, world0\<lparr>calls := [Pthread_detach 0]\<rparr>)
   \<and> detach \<lparr>m_ID = \<lparr>m_threadID = 42\<rparr>\<rparr> world0
       = (LinuxThread_default, world0\<lparr>calls := [Pthread_detach 42]\<rparr>)"
  using detach_effect [of LinuxThread_default world0]
    detach_effect [of "\<lparr>m_ID = \<lparr>m_threadID = 42\<rparr>\<rparr>" world0]
  by (simp add: joinable_iff get_id_def LinuxThread_default_def id_default_def world0_def)

section \<open>Properties of construction with a callable\<close>

text \<open>
  What the constructor does for any answer of the platform. When \<^verbatim>\<open>pthread_create\<close>
  fails, the closure record is freed and no thread has been started, but the exception
  cannot leave the \<^verbatim>\<open>noexcept\<close> constructor: the process is terminated.
\<close>

lemma ctor_body_create_failure:
  "rc r \<noteq> 0 \<Longrightarrow>
     LinuxThread_ctor_body se (Some p) r w
       = (Threw (Runtime_error (se (errno w))),
          w\<lparr>calls := calls w @ [Pthread_create p], closures := closures w - {p}\<rparr>)"
  by (simp add: LinuxThread_ctor_body_def pthread_create_def Let_def)

lemma ctor_create_failure:
  "rc r \<noteq> 0 \<Longrightarrow>
     LinuxThread_ctor se (Some p) r w
       = (Terminated, w\<lparr>calls := calls w @ [Pthread_create p], closures := closures w - {p}\<rparr>)"
  by (simp add: LinuxThread_ctor_def noexcept_def ctor_body_create_failure)

lemma ctor_bad_alloc: "LinuxThread_ctor se None r w = (Terminated, w)"
  by (simp add: LinuxThread_ctor_def noexcept_def LinuxThread_ctor_body_def)

text \<open>
  When \<^verbatim>\<open>pthread_create\<close> succeeds, the handle receives the 8 bytes found at the
  address the new identifier denotes.
\<close>

lemma ctor_success:
  "rc r = 0 \<Longrightarrow> memory w (tid r) = Some v \<Longrightarrow>
     LinuxThread_ctor se (Some p) r w
       = (Returned \<lparr>m_ID = \<lparr>m_threadID = v\<rparr>\<rparr>,
          w\<lparr>closures := insert p (closures w), calls := calls w @ [Pthread_create p],
            threads := threads w @ [tid r]\<rparr>)"
  by (simp add: LinuxThread_ctor_def noexcept_def LinuxThread_ctor_body_def
      pthread_create_def Let_def)

lemma ctor_success_unmapped:
  "rc r = 0 \<Longrightarrow> memory w (tid r) = None \<Longrightarrow>
     fst (LinuxThread_ctor se (Some p) r w) = Fault"
  by (simp add: LinuxThread_ctor_def noexcept_def LinuxThread_ctor_body_def
      pthread_create_def Let_def)

text \<open>
  Where the platform's thread descriptor begins with a pointer to itself, the value read
  is the identifier, and the handle owns the new thread.
\<close>

lemma ctor_success_self_pointer:
  assumes "rc r = 0" and "memory w (tid r) = Some (tid r)" and "tid r \<noteq> 0"
    and "LinuxThread_ctor se (Some p) r w = (Returned h, w')"
  shows "joinable h \<and> id_ne (get_id h) id_default \<and> m_threadID (get_id h) = tid r"
  using assms
  by (auto simp: ctor_success joinable_iff id_ne_def id_eq_iff get_id_def id_default_def)

text \<open>
  C1. The platform refuses to start a thread: \<^verbatim>\<open>pthread_create\<close> returns
  \<^verbatim>\<open>EAGAIN\<close> (11) while \<^verbatim>\<open>errno\<close> is 0. The closure record at address 1 is freed and no
  thread is started, but construction does not fail with an error the caller receives:
  the constructor is \<^verbatim>\<open>noexcept\<close>, so the process is terminated. The exception the body
  throws carries the description of \<^verbatim>\<open>errno\<close> ("Success"), not that of the error number
  the platform returned.
\<close>

theorem ctor_create_failure_terminates:
  "LinuxThread_ctor strerror_linux (Some 1) \<lparr>rc = 11, tid = 0\<rparr> world0
     = (Terminated, world0\<lparr>calls := [Pthread_create 1]\<rparr>)
   \<and> LinuxThread_ctor_body strerror_linux (Some 1) \<lparr>rc = 11, tid = 0\<rparr> world0
     = (Threw (Runtime_error ''Success''), world0\<lparr>calls := [Pthread_create 1]\<rparr>)
   \<and> strerror_linux 11 = ''Resource temporarily unavailable''"
  by (simp add: LinuxThread_ctor_def noexcept_def LinuxThread_ctor_body_def
      pthread_create_def Let_def world0_def strerror_linux_def)

text \<open>
  C2. The platform starts a thread and stores the identifier 139637976731648
  (0x7f0000001000); the 8 bytes at that address hold 0. Construction returns, a thread
  is running, and the handle is empty: it is not joinable, its identity is the default
  one, and the underlying value is not the new thread's identifier.
\<close>

theorem ctor_success_stores_memory_at_tid:
  "LinuxThread_ctor strerror_linux (Some 1) \<lparr>rc = 0, tid = 139637976731648\<rparr>
       (world0\<lparr>memory := [139637976731648 \<mapsto> 0]\<rparr>)
     = (Returned LinuxThread_default,
        \<lparr>closures = {1}, threads = [139637976731648], calls = [Pthread_create 1],
         errno = 0, memory = [139637976731648 \<mapsto> 0]\<rparr>)
   \<and> joinable LinuxThread_default = False
   \<and> get_id LinuxThread_default = id_default
   \<and> m_threadID (get_id LinuxThread_default) \<noteq> 139637976731648"
  by (simp add: LinuxThread_ctor_def noexcept_def LinuxThread_ctor_body_def
      pthread_create_def Let_def world0_def joinable_iff get_id_def
      LinuxThread_default_def id_default_def)

end
